theory Spec2Isabelle
  imports Complex_Main
begin

section \<open>Data model\<close>

text \<open>
  The program is the single function \<open>run_app\<close> of \<open>src/app.py\<close>.  After the page set-up
  it reads the uploaded CSV file into a pandas \<open>DataFrame\<close> \<open>df\<close>, checks that every
  question of the literal \<open>categories\<close> is a column of \<open>df\<close>, and then renders, category by
  category, a header with the number of answers and, for every question, a metric card with
  the mean score and a bar chart of the answer counts.

  A cell of a data frame is a number, a string, or pandas' missing value \<open>NaN\<close>.  Numbers
  are modelled exactly, as rationals: the rounding of binary floating point and the
  infinities are outside the model.  A data frame is the list of its columns in order, each
  with its name, so that duplicate names and the column order are kept.
\<close>

datatype cell = Num rat | Str string | NaN

type_synonym series = "cell list"

type_synonym dataframe = "(string \<times> series) list"

text \<open>
  The literal \<open>categories\<close>: a dict from the category name to a list of
  \<open>(label, question)\<close> pairs.  A Python dict literal keeps the order of its keys.
\<close>

type_synonym schema = "(string \<times> (string \<times> string) list) list"

text \<open>
  Every exception \<open>run_app\<close> can end with after the table is loaded.  \<open>Stop\<close> is the
  \<open>st.stop()\<close> after the missing columns were reported; the others are raised by pandas or
  by Python inside the loop over the categories.
\<close>

datatype error =
    Stop "string list"
  | KeyError string
  | LengthMismatch
  | NaNToInteger
  | FormatTypeError

text \<open>
  What the page shows, in the order it is rendered: the error box of the column check, the
  header of a category (\<open>st.markdown\<close> with the category name and the number of answers),
  the metric card of a question (label, help text, mean score before it is formatted with
  \<open>:.2f\<close>) and its bar chart (the index and the values of \<open>counts\<close>; a value \<open>None\<close> is
  \<open>NaN\<close>).  Calls that carry no computed data (\<open>st.divider\<close>, the spacer, logging) are left
  out.
\<close>

datatype event =
    ErrorBox "string list"
  | Header string int
  | Metric string string "rat option"
  | BarChart "(int \<times> nat option) list"

text \<open>
  The objects of the run: the heap holds the data frames, \<open>fresh\<close> is the next unused
  address, \<open>page\<close> is what has been rendered so far.  An address that was never allocated
  holds the empty frame and is never read.
\<close>

record state =
  heap :: "nat \<Rightarrow> dataframe"
  fresh :: nat
  page :: "event list"

section \<open>The schema\<close>

text \<open>
  The strings of the literal are Japanese; they are written here as the bytes of their UTF-8
  encoding.  Two Python strings are equal exactly when their encodings are.
\<close>

definition cat_lecture_overall :: string where
  \<comment> \<open>category name, line 108: the lecture as a whole (4 code points)\<close>
  "cat_lecture_overall =
   [CHR 0xE8, CHR 0xAC, CHR 0x9B, CHR 0xE7, CHR 0xBE, CHR 0xA9, CHR 0xE5, CHR 0x85, CHR 0xA8,
    CHR 0xE4, CHR 0xBD, CHR 0x93]"

definition lbl_overall_satisfaction :: string where
  \<comment> \<open>label, lines 109 and 118: overall satisfaction (5 code points)\<close>
  "lbl_overall_satisfaction =
   [CHR 0xE7, CHR 0xB7, CHR 0x8F, CHR 0xE5, CHR 0x90, CHR 0x88, CHR 0xE6, CHR 0xBA, CHR 0x80,
    CHR 0xE8, CHR 0xB6, CHR 0xB3, CHR 0xE5, CHR 0xBA, CHR 0xA6]"

definition lbl_recommendation :: string where
  \<comment> \<open>label, line 110: recommendation (5 code points)\<close>
  "lbl_recommendation =
   [CHR 0xE3, CHR 0x81, CHR 0x8A, CHR 0xE3, CHR 0x81, CHR 0x99, CHR 0xE3, CHR 0x81, CHR 0x99,
    CHR 0xE3, CHR 0x82, CHR 0x81, CHR 0xE5, CHR 0xBA, CHR 0xA6]"

definition q_overall_satisfaction :: string where
  \<comment> \<open>question, line 109; it ends with a space (24 code points)\<close>
  "q_overall_satisfaction =
   [CHR 0xE6, CHR 0x9C, CHR 0xAC, CHR 0xE6, CHR 0x97, CHR 0xA5, CHR 0xE3, CHR 0x81, CHR 0xAE,
    CHR 0xE7, CHR 0xB7, CHR 0x8F, CHR 0xE5, CHR 0x90, CHR 0x88, CHR 0xE7, CHR 0x9A, CHR 0x84,
    CHR 0xE3, CHR 0x81, CHR 0xAA, CHR 0xE6, CHR 0xBA, CHR 0x80, CHR 0xE8, CHR 0xB6, CHR 0xB3,
    CHR 0xE5, CHR 0xBA, CHR 0xA6, CHR 0xE3, CHR 0x82, CHR 0x92, CHR 0xEF, CHR 0xBC, CHR 0x95,
    CHR 0xE6, CHR 0xAE, CHR 0xB5, CHR 0xE9, CHR 0x9A, CHR 0x8E, CHR 0xE3, CHR 0x81, CHR 0xA7,
    CHR 0xE6, CHR 0x95, CHR 0x99, CHR 0xE3, CHR 0x81, CHR 0x88, CHR 0xE3, CHR 0x81, CHR 0xA6,
    CHR 0xE3, CHR 0x81, CHR 0x8F, CHR 0xE3, CHR 0x81, CHR 0xA0, CHR 0xE3, CHR 0x81, CHR 0x95,
    CHR 0xE3, CHR 0x81, CHR 0x84, CHR 0xE3, CHR 0x80, CHR 0x82, CHR 0x20]"

definition q_recommendation :: string where
  \<comment> \<open>question, line 110 (23 code points)\<close>
  "q_recommendation =
   [CHR 0xE8, CHR 0xA6, CHR 0xAA, CHR 0xE3, CHR 0x81, CHR 0x97, CHR 0xE3, CHR 0x81, CHR 0x84,
    CHR 0xE3, CHR 0x81, CHR 0x94, CHR 0xE5, CHR 0x8F, CHR 0x8B, CHR 0xE4, CHR 0xBA, CHR 0xBA,
    CHR 0xE3, CHR 0x81, CHR 0xAB, CHR 0xE3, CHR 0x81, CHR 0x93, CHR 0xE3, CHR 0x81, CHR 0xAE,
    CHR 0xE8, CHR 0xAC, CHR 0x9B, CHR 0xE7, CHR 0xBE, CHR 0xA9, CHR 0xE3, CHR 0x81, CHR 0xAE,
    CHR 0xE5, CHR 0x8F, CHR 0x97, CHR 0xE8, CHR 0xAC, CHR 0x9B, CHR 0xE3, CHR 0x82, CHR 0x92,
    CHR 0xE3, CHR 0x81, CHR 0x8A, CHR 0xE8, CHR 0x96, CHR 0xA6, CHR 0xE3, CHR 0x82, CHR 0x81,
    CHR 0xE3, CHR 0x81, CHR 0x97, CHR 0xE3, CHR 0x81, CHR 0xBE, CHR 0xE3, CHR 0x81, CHR 0x99,
    CHR 0xE3, CHR 0x81, CHR 0x8B, CHR 0xEF, CHR 0xBC, CHR 0x9F]"

definition cat_lecture_content :: string where
  \<comment> \<open>category name, line 112: the content of the lecture (4 code points)\<close>
  "cat_lecture_content =
   [CHR 0xE8, CHR 0xAC, CHR 0x9B, CHR 0xE7, CHR 0xBE, CHR 0xA9, CHR 0xE5, CHR 0x86, CHR 0x85,
    CHR 0xE5, CHR 0xAE, CHR 0xB9]"

definition lbl_workload :: string where
  \<comment> \<open>label, line 113: amount of study (3 code points)\<close>
  "lbl_workload =
   [CHR 0xE5, CHR 0xAD, CHR 0xA6, CHR 0xE7, CHR 0xBF, CHR 0x92, CHR 0xE9, CHR 0x87, CHR 0x8F]"

definition lbl_understanding :: string where
  \<comment> \<open>label, line 114: understanding (3 code points)\<close>
  "lbl_understanding =
   [CHR 0xE7, CHR 0x90, CHR 0x86, CHR 0xE8, CHR 0xA7, CHR 0xA3, CHR 0xE5, CHR 0xBA, CHR 0xA6]"

definition lbl_announcement :: string where
  \<comment> \<open>label, line 115: announcements (5 code points)\<close>
  "lbl_announcement =
   [CHR 0xE3, CHR 0x82, CHR 0xA2, CHR 0xE3, CHR 0x83, CHR 0x8A, CHR 0xE3, CHR 0x82, CHR 0xA6,
    CHR 0xE3, CHR 0x83, CHR 0xB3, CHR 0xE3, CHR 0x82, CHR 0xB9]"

definition q_workload :: string where
  \<comment> \<open>question, line 113; a space and a line feed separate its two parts (34 code points)\<close>
  "q_workload =
   [CHR 0xE6, CHR 0x9C, CHR 0xAC, CHR 0xE6, CHR 0x97, CHR 0xA5, CHR 0xE3, CHR 0x81, CHR 0xAE,
    CHR 0xE8, CHR 0xAC, CHR 0x9B, CHR 0xE7, CHR 0xBE, CHR 0xA9, CHR 0xE5, CHR 0x86, CHR 0x85,
    CHR 0xE5, CHR 0xAE, CHR 0xB9, CHR 0xE3, CHR 0x81, CHR 0xAB, CHR 0xE3, CHR 0x81, CHR 0xA4,
    CHR 0xE3, CHR 0x81, CHR 0x84, CHR 0xE3, CHR 0x81, CHR 0xA6, CHR 0xEF, CHR 0xBC, CHR 0x95,
    CHR 0xE6, CHR 0xAE, CHR 0xB5, CHR 0xE9, CHR 0x9A, CHR 0x8E, CHR 0xE3, CHR 0x81, CHR 0xA7,
    CHR 0xE6, CHR 0x95, CHR 0x99, CHR 0xE3, CHR 0x81, CHR 0x88, CHR 0xE3, CHR 0x81, CHR 0xA6,
    CHR 0xE3, CHR 0x81, CHR 0x8F, CHR 0xE3, CHR 0x81, CHR 0xA0, CHR 0xE3, CHR 0x81, CHR 0x95,
    CHR 0xE3, CHR 0x81, CHR 0x84, CHR 0xE3, CHR 0x80, CHR 0x82, CHR 0x20, CHR 0x0A, CHR 0xE5,
    CHR 0xAD, CHR 0xA6, CHR 0xE7, CHR 0xBF, CHR 0x92, CHR 0xE9, CHR 0x87, CHR 0x8F, CHR 0xE3,
    CHR 0x81, CHR 0xAF, CHR 0xE9, CHR 0x81, CHR 0xA9, CHR 0xE5, CHR 0x88, CHR 0x87, CHR 0xE3,
    CHR 0x81, CHR 0xA0, CHR 0xE3, CHR 0x81, CHR 0xA3, CHR 0xE3, CHR 0x81, CHR 0x9F]"

definition q_understanding :: string where
  \<comment> \<open>question, line 114 (38 code points)\<close>
  "q_understanding =
   [CHR 0xE6, CHR 0x9C, CHR 0xAC, CHR 0xE6, CHR 0x97, CHR 0xA5, CHR 0xE3, CHR 0x81, CHR 0xAE,
    CHR 0xE8, CHR 0xAC, CHR 0x9B, CHR 0xE7, CHR 0xBE, CHR 0xA9, CHR 0xE5, CHR 0x86, CHR 0x85,
    CHR 0xE5, CHR 0xAE, CHR 0xB9, CHR 0xE3, CHR 0x81, CHR 0xAB, CHR 0xE3, CHR 0x81, CHR 0xA4,
    CHR 0xE3, CHR 0x81, CHR 0x84, CHR 0xE3, CHR 0x81, CHR 0xA6, CHR 0xEF, CHR 0xBC, CHR 0x95,
    CHR 0xE6, CHR 0xAE, CHR 0xB5, CHR 0xE9, CHR 0x9A, CHR 0x8E, CHR 0xE3, CHR 0x81, CHR 0xA7,
    CHR 0xE6, CHR 0x95, CHR 0x99, CHR 0xE3, CHR 0x81, CHR 0x88, CHR 0xE3, CHR 0x81, CHR 0xA6,
    CHR 0xE3, CHR 0x81, CHR 0x8F, CHR 0xE3, CHR 0x81, CHR 0xA0, CHR 0xE3, CHR 0x81, CHR 0x95,
    CHR 0xE3, CHR 0x81, CHR 0x84, CHR 0xE3, CHR 0x80, CHR 0x82, CHR 0x20, CHR 0x0A, CHR 0xE8,
    CHR 0xAC, CHR 0x9B, CHR 0xE7, CHR 0xBE, CHR 0xA9, CHR 0xE5, CHR 0x86, CHR 0x85, CHR 0xE5,
    CHR 0xAE, CHR 0xB9, CHR 0xE3, CHR 0x81, CHR 0x8C, CHR 0xE5, CHR 0x8D, CHR 0x81, CHR 0xE5,
    CHR 0x88, CHR 0x86, CHR 0xE3, CHR 0x81, CHR 0xAB, CHR 0xE7, CHR 0x90, CHR 0x86, CHR 0xE8,
    CHR 0xA7, CHR 0xA3, CHR 0xE3, CHR 0x81, CHR 0xA7, CHR 0xE3, CHR 0x81, CHR 0x8D, CHR 0xE3,
    CHR 0x81, CHR 0x9F]"

definition q_announcement :: string where
  \<comment> \<open>question, line 115 (40 code points)\<close>
  "q_announcement =
   [CHR 0xE6, CHR 0x9C, CHR 0xAC, CHR 0xE6, CHR 0x97, CHR 0xA5, CHR 0xE3, CHR 0x81, CHR 0xAE,
    CHR 0xE8, CHR 0xAC, CHR 0x9B, CHR 0xE7, CHR 0xBE, CHR 0xA9, CHR 0xE5, CHR 0x86, CHR 0x85,
    CHR 0xE5, CHR 0xAE, CHR 0xB9, CHR 0xE3, CHR 0x81, CHR 0xAB, CHR 0xE3, CHR 0x81, CHR 0xA4,
    CHR 0xE3, CHR 0x81, CHR 0x84, CHR 0xE3, CHR 0x81, CHR 0xA6, CHR 0xEF, CHR 0xBC, CHR 0x95,
    CHR 0xE6, CHR 0xAE, CHR 0xB5, CHR 0xE9, CHR 0x9A, CHR 0x8E, CHR 0xE3, CHR 0x81, CHR 0xA7,
    CHR 0xE6, CHR 0x95, CHR 0x99, CHR 0xE3, CHR 0x81, CHR 0x88, CHR 0xE3, CHR 0x81, CHR 0xA6,
    CHR 0xE3, CHR 0x81, CHR 0x8F, CHR 0xE3, CHR 0x81, CHR 0xA0, CHR 0xE3, CHR 0x81, CHR 0x95,
    CHR 0xE3, CHR 0x81, CHR 0x84, CHR 0xE3, CHR 0x80, CHR 0x82, CHR 0x20, CHR 0x0A, CHR 0xE9,
    CHR 0x81, CHR 0x8B, CHR 0xE5, CHR 0x96, CHR 0xB6, CHR 0xE5, CHR 0x81, CHR 0xB4, CHR 0xE3,
    CHR 0x81, CHR 0xAE, CHR 0xE3, CHR 0x82, CHR 0xA2, CHR 0xE3, CHR 0x83, CHR 0x8A, CHR 0xE3,
    CHR 0x82, CHR 0xA6, CHR 0xE3, CHR 0x83, CHR 0xB3, CHR 0xE3, CHR 0x82, CHR 0xB9, CHR 0xE3,
    CHR 0x81, CHR 0x8C, CHR 0xE9, CHR 0x81, CHR 0xA9, CHR 0xE5, CHR 0x88, CHR 0x87, CHR 0xE3,
    CHR 0x81, CHR 0xA0, CHR 0xE3, CHR 0x81, CHR 0xA3, CHR 0xE3, CHR 0x81, CHR 0x9F]"

definition cat_lecturer :: string where
  \<comment> \<open>category name, line 117: the lecturer (2 code points)\<close>
  "cat_lecturer =
   [CHR 0xE8, CHR 0xAC, CHR 0x9B, CHR 0xE5, CHR 0xB8, CHR 0xAB]"

definition lbl_time_use :: string where
  \<comment> \<open>label, line 119: use of time (4 code points)\<close>
  "lbl_time_use =
   [CHR 0xE6, CHR 0x99, CHR 0x82, CHR 0xE9, CHR 0x96, CHR 0x93, CHR 0xE6, CHR 0xB4, CHR 0xBB,
    CHR 0xE7, CHR 0x94, CHR 0xA8]"

definition lbl_question_handling :: string where
  \<comment> \<open>label, line 120: answers to questions (4 code points)\<close>
  "lbl_question_handling =
   [CHR 0xE8, CHR 0xB3, CHR 0xAA, CHR 0xE5, CHR 0x95, CHR 0x8F, CHR 0xE5, CHR 0xAF, CHR 0xBE,
    CHR 0xE5, CHR 0xBF, CHR 0x9C]"

definition lbl_speaking :: string where
  \<comment> \<open>label, line 121: way of speaking (3 code points)\<close>
  "lbl_speaking =
   [CHR 0xE8, CHR 0xA9, CHR 0xB1, CHR 0xE3, CHR 0x81, CHR 0x97, CHR 0xE6, CHR 0x96, CHR 0xB9]"

definition q_lecturer_satisfaction :: string where
  \<comment> \<open>question, line 118 (26 code points)\<close>
  "q_lecturer_satisfaction =
   [CHR 0xE6, CHR 0x9C, CHR 0xAC, CHR 0xE6, CHR 0x97, CHR 0xA5, CHR 0xE3, CHR 0x81, CHR 0xAE,
    CHR 0xE8, CHR 0xAC, CHR 0x9B, CHR 0xE5, CHR 0xB8, CHR 0xAB, CHR 0xE3, CHR 0x81, CHR 0xAE,
    CHR 0xE7, CHR 0xB7, CHR 0x8F, CHR 0xE5, CHR 0x90, CHR 0x88, CHR 0xE7, CHR 0x9A, CHR 0x84,
    CHR 0xE3, CHR 0x81, CHR 0xAA, CHR 0xE6, CHR 0xBA, CHR 0x80, CHR 0xE8, CHR 0xB6, CHR 0xB3,
    CHR 0xE5, CHR 0xBA, CHR 0xA6, CHR 0xE3, CHR 0x82, CHR 0x92, CHR 0xEF, CHR 0xBC, CHR 0x95,
    CHR 0xE6, CHR 0xAE, CHR 0xB5, CHR 0xE9, CHR 0x9A, CHR 0x8E, CHR 0xE3, CHR 0x81, CHR 0xA7,
    CHR 0xE6, CHR 0x95, CHR 0x99, CHR 0xE3, CHR 0x81, CHR 0x88, CHR 0xE3, CHR 0x81, CHR 0xA6,
    CHR 0xE3, CHR 0x81, CHR 0x8F, CHR 0xE3, CHR 0x81, CHR 0xA0, CHR 0xE3, CHR 0x81, CHR 0x95,
    CHR 0xE3, CHR 0x81, CHR 0x84, CHR 0xE3, CHR 0x80, CHR 0x82]"

definition q_time_use :: string where
  \<comment> \<open>question, line 119; a line feed separates its two parts (36 code points)\<close>
  "q_time_use =
   [CHR 0xE6, CHR 0x9C, CHR 0xAC, CHR 0xE6, CHR 0x97, CHR 0xA5, CHR 0xE3, CHR 0x81, CHR 0xAE,
    CHR 0xE8, CHR 0xAC, CHR 0x9B, CHR 0xE5, CHR 0xB8, CHR 0xAB, CHR 0xE3, CHR 0x81, CHR 0xAB,
    CHR 0xE3, CHR 0x81, CHR 0xA4, CHR 0xE3, CHR 0x81, CHR 0x84, CHR 0xE3, CHR 0x81, CHR 0xA6,
    CHR 0xEF, CHR 0xBC, CHR 0x95, CHR 0xE6, CHR 0xAE, CHR 0xB5, CHR 0xE9, CHR 0x9A, CHR 0x8E,
    CHR 0xE3, CHR 0x81, CHR 0xA7, CHR 0xE6, CHR 0x95, CHR 0x99, CHR 0xE3, CHR 0x81, CHR 0x88,
    CHR 0xE3, CHR 0x81, CHR 0xA6, CHR 0xE3, CHR 0x81, CHR 0x8F, CHR 0xE3, CHR 0x81, CHR 0xA0,
    CHR 0xE3, CHR 0x81, CHR 0x95, CHR 0xE3, CHR 0x81, CHR 0x84, CHR 0xE3, CHR 0x80, CHR 0x82,
    CHR 0x0A, CHR 0xE6, CHR 0x8E, CHR 0x88, CHR 0xE6, CHR 0xA5, CHR 0xAD, CHR 0xE6, CHR 0x99,
    CHR 0x82, CHR 0xE9, CHR 0x96, CHR 0x93, CHR 0xE3, CHR 0x82, CHR 0x92, CHR 0xE5, CHR 0x8A,
    CHR 0xB9, CHR 0xE7, CHR 0x8E, CHR 0x87, CHR 0xE7, CHR 0x9A, CHR 0x84, CHR 0xE3, CHR 0x81,
    CHR 0xAB, CHR 0xE4, CHR 0xBD, CHR 0xBF, CHR 0xE3, CHR 0x81, CHR 0xA3, CHR 0xE3, CHR 0x81,
    CHR 0xA6, CHR 0xE3, CHR 0x81, CHR 0x84, CHR 0xE3, CHR 0x81, CHR 0x9F]"

definition q_question_handling :: string where
  \<comment> \<open>question, line 120 (35 code points)\<close>
  "q_question_handling =
   [CHR 0xE6, CHR 0x9C, CHR 0xAC, CHR 0xE6, CHR 0x97, CHR 0xA5, CHR 0xE3, CHR 0x81, CHR 0xAE,
    CHR 0xE8, CHR 0xAC, CHR 0x9B, CHR 0xE5, CHR 0xB8, CHR 0xAB, CHR 0xE3, CHR 0x81, CHR 0xAB,
    CHR 0xE3, CHR 0x81, CHR 0xA4, CHR 0xE3, CHR 0x81, CHR 0x84, CHR 0xE3, CHR 0x81, CHR 0xA6,
    CHR 0xEF, CHR 0xBC, CHR 0x95, CHR 0xE6, CHR 0xAE, CHR 0xB5, CHR 0xE9, CHR 0x9A, CHR 0x8E,
    CHR 0xE3, CHR 0x81, CHR 0xA7, CHR 0xE6, CHR 0x95, CHR 0x99, CHR 0xE3, CHR 0x81, CHR 0x88,
    CHR 0xE3, CHR 0x81, CHR 0xA6, CHR 0xE3, CHR 0x81, CHR 0x8F, CHR 0xE3, CHR 0x81, CHR 0xA0,
    CHR 0xE3, CHR 0x81, CHR 0x95, CHR 0xE3, CHR 0x81, CHR 0x84, CHR 0xE3, CHR 0x80, CHR 0x82,
    CHR 0x0A, CHR 0xE8, CHR 0xB3, CHR 0xAA, CHR 0xE5, CHR 0x95, CHR 0x8F, CHR 0xE3, CHR 0x81,
    CHR 0xAB, CHR 0xE4, CHR 0xB8, CHR 0x81, CHR 0xE5, CHR 0xAF, CHR 0xA7, CHR 0xE3, CHR 0x81,
    CHR 0xAB, CHR 0xE5, CHR 0xAF, CHR 0xBE, CHR 0xE5, CHR 0xBF, CHR 0x9C, CHR 0xE3, CHR 0x81,
    CHR 0x97, CHR 0xE3, CHR 0x81, CHR 0xA6, CHR 0xE3, CHR 0x81, CHR 0x8F, CHR 0xE3, CHR 0x82,
    CHR 0x8C, CHR 0xE3, CHR 0x81, CHR 0x9F]"

definition q_speaking :: string where
  \<comment> \<open>question, line 121 (37 code points)\<close>
  "q_speaking =
   [CHR 0xE6, CHR 0x9C, CHR 0xAC, CHR 0xE6, CHR 0x97, CHR 0xA5, CHR 0xE3, CHR 0x81, CHR 0xAE,
    CHR 0xE8, CHR 0xAC, CHR 0x9B, CHR 0xE5, CHR 0xB8, CHR 0xAB, CHR 0xE3, CHR 0x81, CHR 0xAB,
    CHR 0xE3, CHR 0x81, CHR 0xA4, CHR 0xE3, CHR 0x81, CHR 0x84, CHR 0xE3, CHR 0x81, CHR 0xA6,
    CHR 0xEF, CHR 0xBC, CHR 0x95, CHR 0xE6, CHR 0xAE, CHR 0xB5, CHR 0xE9, CHR 0x9A, CHR 0x8E,
    CHR 0xE3, CHR 0x81, CHR 0xA7, CHR 0xE6, CHR 0x95, CHR 0x99, CHR 0xE3, CHR 0x81, CHR 0x88,
    CHR 0xE3, CHR 0x81, CHR 0xA6, CHR 0xE3, CHR 0x81, CHR 0x8F, CHR 0xE3, CHR 0x81, CHR 0xA0,
    CHR 0xE3, CHR 0x81, CHR 0x95, CHR 0xE3, CHR 0x81, CHR 0x84, CHR 0xE3, CHR 0x80, CHR 0x82,
    CHR 0x0A, CHR 0xE8, CHR 0xA9, CHR 0xB1, CHR 0xE3, CHR 0x81, CHR 0x97, CHR 0xE6, CHR 0x96,
    CHR 0xB9, CHR 0xE3, CHR 0x82, CHR 0x84, CHR 0xE5, CHR 0xA3, CHR 0xB0, CHR 0xE3, CHR 0x81,
    CHR 0xAE, CHR 0xE5, CHR 0xA4, CHR 0xA7, CHR 0xE3, CHR 0x81, CHR 0x8D, CHR 0xE3, CHR 0x81,
    CHR 0x95, CHR 0xE3, CHR 0x81, CHR 0x8C, CHR 0xE9, CHR 0x81, CHR 0xA9, CHR 0xE5, CHR 0x88,
    CHR 0x87, CHR 0xE3, CHR 0x81, CHR 0xA0, CHR 0xE3, CHR 0x81, CHR 0xA3, CHR 0xE3, CHR 0x81,
    CHR 0x9F]"

definition cat_self :: string where
  \<comment> \<open>category name, line 123: the respondent (4 code points)\<close>
  "cat_self =
   [CHR 0xE8, CHR 0x87, CHR 0xAA, CHR 0xE5, CHR 0x88, CHR 0x86, CHR 0xE8, CHR 0x87, CHR 0xAA,
    CHR 0xE8, CHR 0xBA, CHR 0xAB]"

definition lbl_preparation :: string where
  \<comment> \<open>label, line 124: preparation (2 code points)\<close>
  "lbl_preparation =
   [CHR 0xE4, CHR 0xBA, CHR 0x88, CHR 0xE7, CHR 0xBF, CHR 0x92]"

definition lbl_motivation :: string where
  \<comment> \<open>label, line 125: motivation (2 code points)\<close>
  "lbl_motivation =
   [CHR 0xE6, CHR 0x84, CHR 0x8F, CHR 0xE6, CHR 0xAC, CHR 0xB2]"

definition lbl_future_use :: string where
  \<comment> \<open>label, line 126: future use (5 code points)\<close>
  "lbl_future_use =
   [CHR 0xE4, CHR 0xBB, CHR 0x8A, CHR 0xE5, CHR 0xBE, CHR 0x8C, CHR 0xE3, CHR 0x81, CHR 0xAE,
    CHR 0xE6, CHR 0xB4, CHR 0xBB, CHR 0xE7, CHR 0x94, CHR 0xA8]"

definition q_preparation :: string where
  \<comment> \<open>question, line 124 (28 code points)\<close>
  "q_preparation =
   [CHR 0xE3, CHR 0x81, CHR 0x94, CHR 0xE8, CHR 0x87, CHR 0xAA, CHR 0xE8, CHR 0xBA, CHR 0xAB,
    CHR 0xE3, CHR 0x81, CHR 0xAB, CHR 0xE3, CHR 0x81, CHR 0xA4, CHR 0xE3, CHR 0x81, CHR 0x84,
    CHR 0xE3, CHR 0x81, CHR 0xA6, CHR 0xEF, CHR 0xBC, CHR 0x95, CHR 0xE6, CHR 0xAE, CHR 0xB5,
    CHR 0xE9, CHR 0x9A, CHR 0x8E, CHR 0xE3, CHR 0x81, CHR 0xA7, CHR 0xE6, CHR 0x95, CHR 0x99,
    CHR 0xE3, CHR 0x81, CHR 0x88, CHR 0xE3, CHR 0x81, CHR 0xA6, CHR 0xE3, CHR 0x81, CHR 0x8F,
    CHR 0xE3, CHR 0x81, CHR 0xA0, CHR 0xE3, CHR 0x81, CHR 0x95, CHR 0xE3, CHR 0x81, CHR 0x84,
    CHR 0xE3, CHR 0x80, CHR 0x82, CHR 0x0A, CHR 0xE4, CHR 0xBA, CHR 0x8B, CHR 0xE5, CHR 0x89,
    CHR 0x8D, CHR 0xE3, CHR 0x81, CHR 0xAB, CHR 0xE4, CHR 0xBA, CHR 0x88, CHR 0xE7, CHR 0xBF,
    CHR 0x92, CHR 0xE3, CHR 0x82, CHR 0x92, CHR 0xE3, CHR 0x81, CHR 0x97, CHR 0xE3, CHR 0x81,
    CHR 0x9F]"

definition q_motivation :: string where
  \<comment> \<open>question, line 125 (32 code points)\<close>
  "q_motivation =
   [CHR 0xE3, CHR 0x81, CHR 0x94, CHR 0xE8, CHR 0x87, CHR 0xAA, CHR 0xE8, CHR 0xBA, CHR 0xAB,
    CHR 0xE3, CHR 0x81, CHR 0xAB, CHR 0xE3, CHR 0x81, CHR 0xA4, CHR 0xE3, CHR 0x81, CHR 0x84,
    CHR 0xE3, CHR 0x81, CHR 0xA6, CHR 0xEF, CHR 0xBC, CHR 0x95, CHR 0xE6, CHR 0xAE, CHR 0xB5,
    CHR 0xE9, CHR 0x9A, CHR 0x8E, CHR 0xE3, CHR 0x81, CHR 0xA7, CHR 0xE6, CHR 0x95, CHR 0x99,
    CHR 0xE3, CHR 0x81, CHR 0x88, CHR 0xE3, CHR 0x81, CHR 0xA6, CHR 0xE3, CHR 0x81, CHR 0x8F,
    CHR 0xE3, CHR 0x81, CHR 0xA0, CHR 0xE3, CHR 0x81, CHR 0x95, CHR 0xE3, CHR 0x81, CHR 0x84,
    CHR 0xE3, CHR 0x80, CHR 0x82, CHR 0x0A, CHR 0xE6, CHR 0x84, CHR 0x8F, CHR 0xE6, CHR 0xAC,
    CHR 0xB2, CHR 0xE3, CHR 0x82, CHR 0x92, CHR 0xE3, CHR 0x82, CHR 0x82, CHR 0xE3, CHR 0x81,
    CHR 0xA3, CHR 0xE3, CHR 0x81, CHR 0xA6, CHR 0xE8, CHR 0xAC, CHR 0x9B, CHR 0xE7, CHR 0xBE,
    CHR 0xA9, CHR 0xE3, CHR 0x81, CHR 0xAB, CHR 0xE8, CHR 0x87, CHR 0xA8, CHR 0xE3, CHR 0x82,
    CHR 0x93, CHR 0xE3, CHR 0x81, CHR 0xA0]"

definition q_future_use :: string where
  \<comment> \<open>question, line 126 (38 code points)\<close>
  "q_future_use =
   [CHR 0xE3, CHR 0x81, CHR 0x94, CHR 0xE8, CHR 0x87, CHR 0xAA, CHR 0xE8, CHR 0xBA, CHR 0xAB,
    CHR 0xE3, CHR 0x81, CHR 0xAB, CHR 0xE3, CHR 0x81, CHR 0xA4, CHR 0xE3, CHR 0x81, CHR 0x84,
    CHR 0xE3, CHR 0x81, CHR 0xA6, CHR 0xEF, CHR 0xBC, CHR 0x95, CHR 0xE6, CHR 0xAE, CHR 0xB5,
    CHR 0xE9, CHR 0x9A, CHR 0x8E, CHR 0xE3, CHR 0x81, CHR 0xA7, CHR 0xE6, CHR 0x95, CHR 0x99,
    CHR 0xE3, CHR 0x81, CHR 0x88, CHR 0xE3, CHR 0x81, CHR 0xA6, CHR 0xE3, CHR 0x81, CHR 0x8F,
    CHR 0xE3, CHR 0x81, CHR 0xA0, CHR 0xE3, CHR 0x81, CHR 0x95, CHR 0xE3, CHR 0x81, CHR 0x84,
    CHR 0xE3, CHR 0x80, CHR 0x82, CHR 0x0A, CHR 0xE4, CHR 0xBB, CHR 0x8A, CHR 0xE5, CHR 0x9B,
    CHR 0x9E, CHR 0xE5, CHR 0xAD, CHR 0xA6, CHR 0xE3, CHR 0x82, CHR 0x93, CHR 0xE3, CHR 0x81,
    CHR 0xA0, CHR 0xE3, CHR 0x81, CHR 0x93, CHR 0xE3, CHR 0x81, CHR 0xA8, CHR 0xE3, CHR 0x82,
    CHR 0x92, CHR 0xE5, CHR 0xAD, CHR 0xA6, CHR 0xE7, CHR 0xBF, CHR 0x92, CHR 0xE3, CHR 0x82,
    CHR 0x84, CHR 0xE7, CHR 0xA0, CHR 0x94, CHR 0xE7, CHR 0xA9, CHR 0xB6, CHR 0xE3, CHR 0x81,
    CHR 0xAB, CHR 0xE7, CHR 0x94, CHR 0x9F, CHR 0xE3, CHR 0x81, CHR 0x8B, CHR 0xE3, CHR 0x81,
    CHR 0x9B, CHR 0xE3, CHR 0x82, CHR 0x8B]"

definition categories :: schema where
  "categories =
   [(cat_lecture_overall,
     [(lbl_overall_satisfaction, q_overall_satisfaction),
      (lbl_recommendation, q_recommendation)]),
    (cat_lecture_content,
     [(lbl_workload, q_workload),
      (lbl_understanding, q_understanding),
      (lbl_announcement, q_announcement)]),
    (cat_lecturer,
     [(lbl_overall_satisfaction, q_lecturer_satisfaction),
      (lbl_time_use, q_time_use),
      (lbl_question_handling, q_question_handling),
      (lbl_speaking, q_speaking)]),
    (cat_self,
     [(lbl_preparation, q_preparation),
      (lbl_motivation, q_motivation),
      (lbl_future_use, q_future_use)])]"

section \<open>The column check\<close>

text \<open>
  \<^verbatim>\<open>missing_cols = [full for qs in categories.values() for _, full in qs
                  if full not in df.columns]\<close>
\<close>

definition missing_cols :: "schema \<Rightarrow> string list \<Rightarrow> string list" where
  "missing_cols cats columns =
     [full. qs \<leftarrow> map snd cats, (label, full) \<leftarrow> qs, full \<notin> set columns]"

section \<open>pandas operations used by the aggregation\<close>

text \<open>
  \<open>pd.to_numeric(..., errors="coerce")\<close> on one cell.  How pandas reads a string as a number
  is library code; it is the parameter \<open>parse\<close>, which returns \<open>None\<close> for a string that is
  not a number.
\<close>

fun to_numeric :: "(string \<Rightarrow> rat option) \<Rightarrow> cell \<Rightarrow> cell" where
  "to_numeric parse (Num r) = Num r"
| "to_numeric parse (Str s) = (case parse s of Some r \<Rightarrow> Num r | None \<Rightarrow> NaN)"
| "to_numeric parse NaN = NaN"

text \<open>\<open>df[questions]\<close>: a new frame with the columns named by the list, in the list's order.\<close>

definition getitem_list :: "dataframe \<Rightarrow> string list \<Rightarrow> error + dataframe" where
  "getitem_list df qs =
     (case filter (\<lambda>q. q \<notin> set (map fst df)) qs of
        [] \<Rightarrow> Inr (concat (map (\<lambda>q. filter (\<lambda>c. fst c = q) df) qs))
      | q # _ \<Rightarrow> Inl (KeyError q))"

text \<open>\<open>.apply(pd.to_numeric, errors="coerce")\<close>: a new frame, every column coerced.\<close>

definition apply_to_numeric :: "(string \<Rightarrow> rat option) \<Rightarrow> dataframe \<Rightarrow> dataframe" where
  "apply_to_numeric parse df = map (\<lambda>(name, col). (name, map (to_numeric parse) col)) df"

text \<open>\<open>category_df.columns = labels\<close>: pandas refuses a list of another length.\<close>

definition set_columns :: "string list \<Rightarrow> dataframe \<Rightarrow> error + dataframe" where
  "set_columns labels df =
     (if length labels \<noteq> length df then Inl LengthMismatch
      else Inr (zip labels (map snd df)))"

text \<open>The numbers of a coerced column: pandas skips \<open>NaN\<close> in \<open>mean\<close>, \<open>max\<close> and \<open>value_counts\<close>.\<close>

definition floats :: "series \<Rightarrow> rat list" where
  "floats col = [r. Num r \<leftarrow> col]"

definition series_mean :: "series \<Rightarrow> rat option" where
  "series_mean col =
     (case floats col of [] \<Rightarrow> None
      | v # vs \<Rightarrow> Some (sum_list (v # vs) / of_nat (length (v # vs))))"

definition series_count :: "series \<Rightarrow> nat" where
  "series_count col = length (filter (\<lambda>c. c \<noteq> NaN) col)"

definition series_max :: "series \<Rightarrow> rat option" where
  "series_max col = (case floats col of [] \<Rightarrow> None | v # vs \<Rightarrow> Some (fold max vs v))"

text \<open>\<open>category_df.mean()\<close> and \<open>category_df.count()\<close>: one entry for every column.\<close>

definition frame_mean :: "dataframe \<Rightarrow> (string \<times> rat option) list" where
  "frame_mean df = map (\<lambda>(name, col). (name, series_mean col)) df"

definition frame_count :: "dataframe \<Rightarrow> (string \<times> nat) list" where
  "frame_count df = map (\<lambda>(name, col). (name, series_count col)) df"

text \<open>
  Python's \<open>int\<close> on a float: \<open>NaN\<close> raises \<open>ValueError\<close>, a number is truncated towards
  zero.
\<close>

definition py_int :: "rat option \<Rightarrow> error + int" where
  "py_int x =
     (case x of None \<Rightarrow> Inl NaNToInteger
      | Some r \<Rightarrow> Inr (if 0 \<le> r then \<lfloor>r\<rfloor> else \<lceil>r\<rceil>))"

text \<open>
  \<open>answer_counts.mean()\<close>: the mean of a series of counts, \<open>NaN\<close> for the empty series.
\<close>

definition counts_mean :: "(string \<times> nat) list \<Rightarrow> rat option" where
  "counts_mean cs =
     (case cs of [] \<Rightarrow> None
      | _ # _ \<Rightarrow> Some (of_nat (sum_list (map snd cs)) / of_nat (length cs)))"

text \<open>
  \<open>mean_scores[label]\<close> inside the format string: the entry of the label.  When two columns
  carry the label the lookup gives a series, and formatting it with \<open>:.2f\<close> raises
  \<open>TypeError\<close>.
\<close>

definition getitem_scalar :: "(string \<times> 'a) list \<Rightarrow> string \<Rightarrow> error + 'a" where
  "getitem_scalar s label =
     (case filter (\<lambda>e. fst e = label) s of
        [] \<Rightarrow> Inl (KeyError label)
      | [e] \<Rightarrow> Inr (snd e)
      | _ # _ # _ \<Rightarrow> Inl FormatTypeError)"

text \<open>
  \<open>.value_counts()\<close>: every distinct number of the column with the number of its
  occurrences, the most frequent first.  The order among equally frequent values is not
  fixed by pandas; the reindexing below looks entries up by their key.
\<close>

definition value_counts :: "series \<Rightarrow> (rat \<times> nat) list" where
  "value_counts col =
     (let vs = floats col
      in sort_key (\<lambda>e. - int (snd e)) (map (\<lambda>v. (v, count_list vs v)) (remdups vs)))"

text \<open>
  \<open>.reindex(range(1, n + 1))\<close>: the new index is \<open>1, ..., n\<close>; a key the series does not have
  gets \<open>NaN\<close> (no \<open>fill_value\<close> is given), an entry whose key is not in the new index is
  dropped.
\<close>

definition reindex :: "(rat \<times> nat) list \<Rightarrow> int list \<Rightarrow> (int \<times> nat option) list" where
  "reindex s ks = map (\<lambda>k. (k, map_of s (of_int k))) ks"

definition sort_index :: "(int \<times> 'a) list \<Rightarrow> (int \<times> 'a) list" where
  "sort_index s = sort_key fst s"

text \<open>
  \<^verbatim>\<open>counts = (category_df[label].value_counts()
              .reindex(range(1, int(category_df[label].max()) + 1))
              .sort_index())\<close>
\<close>

definition counts :: "series \<Rightarrow> error + (int \<times> nat option) list" where
  "counts col =
     (case py_int (series_max col) of
        Inl e \<Rightarrow> Inl e
      | Inr n \<Rightarrow> Inr (sort_index (reindex (value_counts col) [1..n])))"

section \<open>The run\<close>

definition alloc :: "dataframe \<Rightarrow> state \<Rightarrow> nat \<times> state" where
  "alloc f s = (fresh s, s\<lparr>heap := (heap s)(fresh s := f), fresh := Suc (fresh s)\<rparr>)"

definition render :: "event \<Rightarrow> state \<Rightarrow> state" where
  "render e s = s\<lparr>page := page s @ [e]\<rparr>"

text \<open>
  The inner loop, \<open>for label, question in zip(labels, questions)\<close>: the metric card, then
  the bar chart.  \<open>a\<close> is the address of \<open>category_df\<close>.  The columns of \<open>category_df\<close>
  are the index of \<open>mean_scores\<close>, so \<open>category_df[label]\<close> is reached only when exactly one
  column carries the label, and is that column.
\<close>

fun render_questions ::
  "nat \<Rightarrow> (string \<times> rat option) list \<Rightarrow> (string \<times> string) list \<Rightarrow> state \<Rightarrow> error option \<times> state"
where
  "render_questions a mean_scores [] s = (None, s)"
| "render_questions a mean_scores ((label, question) # rest) s =
     (case getitem_scalar mean_scores label of
        Inl e \<Rightarrow> (Some e, s)
      | Inr m \<Rightarrow>
          (let s1 = render (Metric label question m) s
           in case getitem_scalar (heap s1 a) label of
                Inl e \<Rightarrow> (Some e, s1)
              | Inr col \<Rightarrow>
                  (case counts col of
                     Inl e \<Rightarrow> (Some e, s1)
                   | Inr c \<Rightarrow> render_questions a mean_scores rest (render (BarChart c) s1))))"

text \<open>
  One pass of the outer loop, for the category \<open>category_name\<close> with its list
  \<open>label_question\<close>; \<open>d\<close> is the address of \<open>df\<close>.
\<close>

definition render_category ::
  "(string \<Rightarrow> rat option) \<Rightarrow> nat \<Rightarrow> string \<times> (string \<times> string) list \<Rightarrow> state
     \<Rightarrow> error option \<times> state"
where
  "render_category parse d cat s =
     (let category_name = fst cat; label_question = snd cat;
          labels = map fst label_question;
          questions = map snd label_question
      in case getitem_list (heap s d) questions of
           Inl e \<Rightarrow> (Some e, s)
         | Inr projected \<Rightarrow>
             (let (p, s1) = alloc projected s;
                  (a, s2) = alloc (apply_to_numeric parse (heap s1 p)) s1
              in case set_columns labels (heap s2 a) of
                   Inl e \<Rightarrow> (Some e, s2)
                 | Inr renamed \<Rightarrow>
                     (let s3 = s2\<lparr>heap := (heap s2)(a := renamed)\<rparr>;
                          mean_scores = frame_mean (heap s3 a);
                          answer_counts = frame_count (heap s3 a)
                      in case py_int (counts_mean answer_counts) of
                           Inl e \<Rightarrow> (Some e, s3)
                         | Inr n \<Rightarrow>
                             render_questions a mean_scores label_question
                               (render (Header category_name n) s3))))"

fun render_categories ::
  "(string \<Rightarrow> rat option) \<Rightarrow> nat \<Rightarrow> schema \<Rightarrow> state \<Rightarrow> error option \<times> state"
where
  "render_categories parse d [] s = (None, s)"
| "render_categories parse d (cat # rest) s =
     (case render_category parse d cat s of
        (Some e, s') \<Rightarrow> (Some e, s')
      | (None, s') \<Rightarrow> render_categories parse d rest s')"

text \<open>
  The state when \<open>pd.read_csv\<close> has returned: \<open>df\<close> is the only object, at address 0, and
  nothing of the aggregation is on the page.
\<close>

definition loaded :: "dataframe \<Rightarrow> state" where
  "loaded df = \<lparr>heap = (\<lambda>_. [])(0 := df), fresh = 1, page = []\<rparr>"

text \<open>
  \<open>run_app\<close> from the column check on, for a schema \<open>cats\<close>; \<open>run_app\<close> itself runs it
  with the literal \<open>categories\<close>.
\<close>

definition run_app_with ::
  "(string \<Rightarrow> rat option) \<Rightarrow> schema \<Rightarrow> dataframe \<Rightarrow> error option \<times> state"
where
  "run_app_with parse cats df =
     (let s = loaded df;
          missing = missing_cols cats (map fst (heap s 0))
      in if missing \<noteq> [] then (Some (Stop missing), render (ErrorBox missing) s)
         else render_categories parse 0 cats s)"

definition run_app :: "(string \<Rightarrow> rat option) \<Rightarrow> dataframe \<Rightarrow> error option \<times> state" where
  "run_app parse df = run_app_with parse categories df"


section \<open>Example tables\<close>

text \<open>
  The tables of the examples below hold numbers, empty cells and a few strings.  The CSV
  reader gives a column of numbers when every cell that is not empty is a number, and a
  column of strings otherwise.  On the strings used below pandas and \<open>parse_decimal\<close>
  agree: a string of decimal digits is the number it writes, a word is not a number.
\<close>

definition parse_decimal :: "string \<Rightarrow> rat option" where
  "parse_decimal s =
     (if s \<noteq> [] \<and> list_all (\<lambda>c. c \<in> set ''0123456789'') s
      then Some (of_nat (foldl (\<lambda>n c. 10 * n + (of_char c - 48)) 0 s))
      else None)"

text \<open>
  Five respondents.  The first two columns are those of the specification's scenario A
  (the fourth respondent left the first question empty); the schema of the program needs
  the other ten columns as well.
\<close>

definition scenario_A :: dataframe where
  "scenario_A =
     [(q_overall_satisfaction, [Num 5, Num 4, Num 5, NaN, Num 3]),
      (q_recommendation, [Num 5, Num 5, Num 4, Num 4, Num 4]),
      (q_workload, [Num 3, Num 3, Num 3, Num 3, Num 3]),
      (q_understanding, [Num 3, Num 3, Num 3, Num 3, Num 3]),
      (q_announcement, [Num 3, Num 3, Num 3, Num 3, Num 3]),
      (q_lecturer_satisfaction, [Num 3, Num 3, Num 3, Num 3, Num 3]),
      (q_time_use, [Num 3, Num 3, Num 3, Num 3, Num 3]),
      (q_question_handling, [Num 3, Num 3, Num 3, Num 3, Num 3]),
      (q_speaking, [Num 3, Num 3, Num 3, Num 3, Num 3]),
      (q_preparation, [Num 3, Num 3, Num 3, Num 3, Num 3]),
      (q_motivation, [Num 3, Num 3, Num 3, Num 3, Num 3]),
      (q_future_use, [Num 3, Num 3, Num 3, Num 3, Num 3])]"

text \<open>Scenario B: the second column is not in the file.\<close>

definition scenario_B :: dataframe where
  "scenario_B = filter (\<lambda>c. fst c \<noteq> q_recommendation) scenario_A"

text \<open>Two columns of two different categories are not in the file.\<close>

definition two_missing :: dataframe where
  "two_missing =
     filter (\<lambda>c. fst c \<noteq> q_recommendation \<and> fst c \<noteq> q_motivation) scenario_A"

text \<open>Scenario C: nobody gave a number for the first question.\<close>

definition scenario_C :: dataframe where
  "scenario_C =
     (q_overall_satisfaction, [Str ''good'', Str ''bad'', Str ''-'', NaN, Str ''five''])
       # tl scenario_A"

text \<open>
  One respondent, who answers 4 to every question but the first, where the answer is the
  cell \<open>c\<close>.
\<close>

definition single_row :: "cell \<Rightarrow> dataframe" where
  "single_row c =
     (q_overall_satisfaction, [c])
       # map (\<lambda>q. (q, [Num 4]))
           [q_recommendation, q_workload, q_understanding, q_announcement,
            q_lecturer_satisfaction, q_time_use, q_question_handling, q_speaking,
            q_preparation, q_motivation, q_future_use]"




section \<open>The schema of the program is well formed\<close>

lemma categories_questions_distinct:
  "distinct (concat (map (map snd \<circ> snd) categories))"
  by code_simp

lemma categories_labels_distinct:
  "list_all (\<lambda>c. distinct (map fst (snd c))) categories"
  by code_simp

lemma categories_nonempty:
  "list_all (\<lambda>c. snd c \<noteq> []) categories"
  by code_simp

section \<open>The column check\<close>

lemma set_missing_cols:
  "set (missing_cols cats columns) = (\<Union>c\<in>set cats. snd ` set (snd c)) - set columns"
  by (auto simp: missing_cols_def) force+

lemma loaded_simps:
  "heap (loaded df) 0 = df" "fresh (loaded df) = 1" "page (loaded df) = []"
  by (simp_all add: loaded_def)

text \<open>
  Claim C5.  When the set \<open>S\<close> of the questions of the schema that are not columns of the
  table is not empty, the column check computes a list whose elements are exactly those of
  \<open>S\<close>, whatever the categories they come from, and the run stops with that list.
\<close>

theorem validation_reports_exactly_the_missing_columns:
  assumes "S = (\<Union>c\<in>set cats. snd ` set (snd c)) - set (map fst df)" and "S \<noteq> {}"
  shows "set (missing_cols cats (map fst df)) = S
       \<and> fst (run_app_with parse cats df) = Some (Stop (missing_cols cats (map fst df)))"
proof -
  have eq: "set (missing_cols cats (map fst df)) = S"
    using assms(1) by (simp only: set_missing_cols)
  with assms(2) have "missing_cols cats (map fst df) \<noteq> []"
    by auto
  then show ?thesis
    using eq by (simp add: run_app_with_def Let_def loaded_simps)
qed

theorem validation_reports_exactly_the_missing_columns_witness:
  "{q_recommendation, q_motivation}
     = (\<Union>c\<in>set categories. snd ` set (snd c)) - set (map fst two_missing)
   \<and> {q_recommendation, q_motivation} \<noteq> {}
   \<and> set (missing_cols categories (map fst two_missing)) = {q_recommendation, q_motivation}
   \<and> fst (run_app_with parse_decimal categories two_missing)
       = Some (Stop (missing_cols categories (map fst two_missing)))"
proof -
  have h1: "{q_recommendation, q_motivation}
              = (\<Union>c\<in>set categories. snd ` set (snd c)) - set (map fst two_missing)"
    by code_simp
  have h2: "{q_recommendation, q_motivation} \<noteq> {}"
    by simp
  from validation_reports_exactly_the_missing_columns [OF h1 h2, of parse_decimal] h1 h2
  show ?thesis by blast
qed

text \<open>
  Claim C6.  When a question of some category is not a column of the table, the run ends
  at the column check: the page holds the error box and nothing else (no header, no metric
  and no chart of any category), and no frame was made beside the loaded table.
\<close>

theorem missing_column_halts_before_aggregation:
  assumes "c \<in> set cats" and "(label, full) \<in> set (snd c)" and "full \<notin> set (map fst df)"
  shows "run_app_with parse cats df =
           (Some (Stop (missing_cols cats (map fst df))),
            \<lparr>heap = (\<lambda>_. [])(0 := df), fresh = 1,
             page = [ErrorBox (missing_cols cats (map fst df))]\<rparr>)
         \<and> full \<in> set (missing_cols cats (map fst df))"
proof -
  have "full \<in> set (missing_cols cats (map fst df))"
    using assms unfolding set_missing_cols by force
  then show ?thesis
    by (auto simp: run_app_with_def Let_def loaded_def render_def)
qed

theorem missing_column_halts_before_aggregation_witness:
  "hd categories \<in> set categories
   \<and> (lbl_recommendation, q_recommendation) \<in> set (snd (hd categories))
   \<and> q_recommendation \<notin> set (map fst scenario_B)
   \<and> run_app_with parse_decimal categories scenario_B =
        (Some (Stop (missing_cols categories (map fst scenario_B))),
         \<lparr>heap = (\<lambda>_. [])(0 := scenario_B), fresh = 1,
          page = [ErrorBox (missing_cols categories (map fst scenario_B))]\<rparr>)
   \<and> q_recommendation \<in> set (missing_cols categories (map fst scenario_B))"
proof -
  have h1: "hd categories \<in> set categories"
    by (simp add: categories_def)
  have h2: "(lbl_recommendation, q_recommendation) \<in> set (snd (hd categories))"
    by (simp add: categories_def)
  have h3: "q_recommendation \<notin> set (map fst scenario_B)"
    by code_simp
  from missing_column_halts_before_aggregation [OF h1 h2 h3, of parse_decimal] h1 h2 h3
  show ?thesis by blast
qed

section \<open>Coercion\<close>

lemma floats_Cons:
  "floats (Num r # col) = r # floats col"
  "floats (Str s # col) = floats col"
  "floats (NaN # col) = floats col"
  "floats [] = []"
  by (simp_all add: floats_def)

lemma floats_append: "floats (xs @ ys) = floats xs @ floats ys"
  by (simp add: floats_def)

text \<open>After the coercion a column holds numbers and \<open>NaN\<close> only, so \<open>count\<close> counts its numbers.\<close>

lemma series_count_coerced:
  "series_count (map (to_numeric parse) raw) = length (floats (map (to_numeric parse) raw))"
proof (induction raw)
  case Nil
  show ?case by (simp add: series_count_def floats_Cons)
next
  case (Cons c raw)
  then show ?case
    by (cases c) (auto simp: series_count_def floats_Cons split: option.splits)
qed

text \<open>
  A cell that is not a number is coerced to \<open>NaN\<close>; the numbers of the column, and with them
  its mean, its maximum, its value counts and its count, are those of the column without
  the cell.
\<close>

lemma unparseable_cell_is_missing:
  assumes "parse s = None"
  shows "map (to_numeric parse) (xs @ Str s # ys) = map (to_numeric parse) (xs @ NaN # ys)"
  using assms by simp

lemma unparseable_cell_dropped:
  assumes "parse s = None"
  shows "floats (map (to_numeric parse) (xs @ Str s # ys))
           = floats (map (to_numeric parse) (xs @ ys))"
  using assms by (simp add: floats_append floats_Cons)

lemma unparseable_cell_not_counted:
  assumes "parse s = None"
  shows "series_count (map (to_numeric parse) (xs @ Str s # ys))
           = series_count (map (to_numeric parse) (xs @ ys))"
  using unparseable_cell_dropped [where parse = parse and s = s and xs = xs and ys = ys] assms
  by (simp only: series_count_coerced)

lemma statistics_depend_on_floats:
  assumes "floats col = floats col'"
  shows "series_mean col = series_mean col'" and "series_max col = series_max col'"
    and "value_counts col = value_counts col'" and "counts col = counts col'"
proof -
  show "series_mean col = series_mean col'"
    using assms by (simp add: series_mean_def)
  show m: "series_max col = series_max col'"
    using assms by (simp add: series_max_def)
  show v: "value_counts col = value_counts col'"
    using assms by (simp add: value_counts_def)
  show "counts col = counts col'"
    by (simp only: counts_def m v)
qed

section \<open>Statistics of one column\<close>



lemma series_max_None: "floats col = [] \<Longrightarrow> series_max col = None"
  by (simp add: series_max_def)


lemma series_mean_None: "floats col = [] \<Longrightarrow> series_mean col = None"
  by (simp add: series_mean_def)






section \<open>The bar chart of one column\<close>





lemma py_int_Some: "py_int (Some r) = Inr (if 0 \<le> r then \<lfloor>r\<rfloor> else \<lceil>r\<rceil>)"
  by (simp add: py_int_def)



lemma counts_None: "floats col = [] \<Longrightarrow> counts col = Inl NaNToInteger"
  by (simp add: counts_def series_max_None py_int_def)








section \<open>A column without numbers\<close>

text \<open>
  When the loop reaches a question whose column holds no number, it renders the metric
  card, with whatever the mean score is, and ends with the exception of \<open>int\<close>.
\<close>

lemma column_without_numbers_raises:
  assumes "getitem_scalar ms label = Inr m"
    and "getitem_scalar (heap s a) label = Inr col"
    and "floats col = []"
  shows "render_questions a ms ((label, question) # rest) s
           = (Some NaNToInteger, render (Metric label question m) s)"
  using assms by (simp add: counts_None render_def)

text \<open>
  Claim C1.  In scenario C nobody gave a number for the first question.  The run renders
  the header of the first category and the metric card of the question, with the answer
  count 0 (the header shows the mean of 0 and 5, truncated) and an undefined mean score;
  then \<open>int\<close> of the column's maximum, which is \<open>NaN\<close>, raises, and the run ends there: no
  chart, and nothing of the questions and categories after it.
\<close>

theorem column_without_numbers_aborts_the_run:
  "series_count (map (to_numeric parse_decimal) (snd (hd scenario_C))) = 0
   \<and> series_mean (map (to_numeric parse_decimal) (snd (hd scenario_C))) = None
   \<and> counts (map (to_numeric parse_decimal) (snd (hd scenario_C))) = Inl NaNToInteger
   \<and> fst (run_app parse_decimal scenario_C) = Some NaNToInteger
   \<and> page (snd (run_app parse_decimal scenario_C)) =
       [Header cat_lecture_overall 2,
        Metric lbl_overall_satisfaction q_overall_satisfaction None]"
  by code_simp

text \<open>
  Claim C7.  One respondent answers the first question.  With the answer 4 the run ends
  without an error; with the answer \<open>four\<close>, which is coerced to \<open>NaN\<close>, the column has
  no number left and the run ends with the exception of claim C1.
\<close>

theorem unparseable_cell_can_abort_the_run:
  "fst (run_app parse_decimal (single_row (Num 4))) = None
   \<and> to_numeric parse_decimal (Str ''four'') = NaN
   \<and> fst (run_app parse_decimal (single_row (Str ''four''))) = Some NaNToInteger"
  by code_simp

section \<open>Lookups in a frame with distinct column names\<close>

lemma filter_key_distinct:
  assumes "distinct (map fst xs)" and "map_of xs k = Some v"
  shows "filter (\<lambda>e. fst e = k) xs = [(k, v)]"
  using assms
proof (induction xs)
  case Nil
  then show ?case by simp
next
  case (Cons x xs)
  obtain k' v' where x: "x = (k', v')"
    by (cases x)
  show ?case
  proof (cases "k' = k")
    case True
    with Cons.prems x have "v' = v" and "k \<notin> fst ` set xs"
      by auto
    then have "filter (\<lambda>e. fst e = k) xs = []"
      by (auto simp: filter_empty_conv)
    with True x \<open>v' = v\<close> show ?thesis by simp
  next
    case False
    with Cons x show ?thesis by simp
  qed
qed

lemma getitem_scalar_distinct:
  assumes "distinct (map fst xs)" and "(k, v) \<in> set xs"
  shows "getitem_scalar xs k = Inr v"
proof -
  have "map_of xs k = Some v"
    using assms by simp
  from filter_key_distinct [OF assms(1) this] show ?thesis
    by (simp add: getitem_scalar_def)
qed

lemma getitem_list_present:
  assumes "distinct (map fst df)" and "\<And>q. q \<in> set qs \<Longrightarrow> map_of df q = Some (raw q)"
  shows "getitem_list df qs = Inr (map (\<lambda>q. (q, raw q)) qs)"
proof -
  have "q \<in> set (map fst df)" if "q \<in> set qs" for q
    using assms(2) [OF that] by (metis map_of_eq_None_iff option.distinct(1) set_map)
  then have none: "filter (\<lambda>q. q \<notin> set (map fst df)) qs = []"
    by (auto simp: filter_empty_conv)
  have "concat (map (\<lambda>q. filter (\<lambda>c. fst c = q) df) qs) = map (\<lambda>q. (q, raw q)) qs"
    using assms(2)
  proof (induction qs)
    case Nil
    show ?case by simp
  next
    case (Cons q qs)
    then show ?case
      by (simp add: filter_key_distinct [OF assms(1)])
  qed
  with none show ?thesis
    by (simp add: getitem_list_def)
qed

section \<open>The mean of the answer counts\<close>

lemma floor_of_nat_divide:
  "\<lfloor>(of_nat m :: rat) / of_nat n\<rfloor> = int (m div n)"
  by (simp add: floor_divide_of_nat_eq)

lemma py_int_counts_mean:
  assumes "cs \<noteq> []"
  shows "py_int (counts_mean cs) = Inr (int (sum_list (map snd cs) div length cs))"
proof -
  let ?q = "(of_nat (sum_list (map snd cs)) :: rat) / of_nat (length cs)"
  obtain c cs' where "cs = c # cs'"
    using assms by (cases cs) auto
  then have "counts_mean cs = Some ?q"
    by (simp only: counts_mean_def list.case)
  moreover have "0 \<le> ?q"
    by simp
  ultimately have "py_int (counts_mean cs) = Inr \<lfloor>?q\<rfloor>"
    by (simp only: py_int_Some if_True)
  then show ?thesis
    by (simp only: floor_of_nat_divide)
qed

section \<open>The loop over the questions and the categories\<close>

text \<open>
  The inner loop appends to the page and changes nothing else; what it appends, and the
  exception it may end with, depend on the frame at the address it reads and on nothing
  else of the state.
\<close>

lemma render_questions_rel:
  "heap s1 a1 = heap s2 a2 \<Longrightarrow>
     \<exists>e evs. render_questions a1 ms lqs s1 = (e, s1\<lparr>page := page s1 @ evs\<rparr>)
            \<and> render_questions a2 ms lqs s2 = (e, s2\<lparr>page := page s2 @ evs\<rparr>)"
proof (induction lqs arbitrary: s1 s2)
  case Nil
  show ?case
    by (intro exI [of _ None] exI [of _ "[]"]) simp
next
  case (Cons lq lqs)
  obtain label question where lq: "lq = (label, question)"
    by (cases lq)
  show ?case
  proof (cases "getitem_scalar ms label")
    case (Inl e)
    then show ?thesis
      by (intro exI [of _ "Some e"] exI [of _ "[]"]) (simp add: lq)
  next
    case m: (Inr m)
    let ?M = "Metric label question m"
    show ?thesis
    proof (cases "getitem_scalar (heap s1 a1) label")
      case (Inl e)
      with m Cons.prems show ?thesis
        by (intro exI [of _ "Some e"] exI [of _ "[?M]"]) (simp add: lq render_def)
    next
      case col: (Inr col)
      show ?thesis
      proof (cases "counts col")
        case (Inl e)
        with m col Cons.prems show ?thesis
          by (intro exI [of _ "Some e"] exI [of _ "[?M]"]) (simp add: lq render_def)
      next
        case c: (Inr c)
        let ?t1 = "render (BarChart c) (render ?M s1)"
        let ?t2 = "render (BarChart c) (render ?M s2)"
        have "heap ?t1 a1 = heap ?t2 a2"
          using Cons.prems by (simp add: render_def)
        from Cons.IH [OF this] obtain e evs where
          "render_questions a1 ms lqs ?t1 = (e, ?t1\<lparr>page := page ?t1 @ evs\<rparr>)"
          "render_questions a2 ms lqs ?t2 = (e, ?t2\<lparr>page := page ?t2 @ evs\<rparr>)"
          by blast
        with m col c Cons.prems show ?thesis
          by (intro exI [of _ e] exI [of _ "?M # BarChart c # evs"])
             (simp add: lq render_def)
      qed
    qed
  qed
qed

text \<open>
  When every question of the list has its column, with at least one number in it, the
  inner loop renders for every question the mean score and the chart data of that column,
  in the order of the list, and ends without an exception.
\<close>

lemma render_questions_all:
  assumes "\<And>l q. (l, q) \<in> set lqs \<Longrightarrow>
             getitem_scalar ms l = Inr (series_mean (col q))
           \<and> getitem_scalar (heap s a) l = Inr (col q)
           \<and> counts (col q) = Inr (chart q)"
  shows "render_questions a ms lqs s =
           (None, s\<lparr>page := page s
              @ concat (map (\<lambda>(l, q). [Metric l q (series_mean (col q)), BarChart (chart q)])
                         lqs)\<rparr>)"
  using assms
proof (induction lqs arbitrary: s)
  case Nil
  show ?case by simp
next
  case (Cons lq lqs)
  obtain l q where lq: "lq = (l, q)"
    by (cases lq)
  let ?t = "render (BarChart (chart q)) (render (Metric l q (series_mean (col q))) s)"
  have here: "getitem_scalar ms l = Inr (series_mean (col q))"
    "getitem_scalar (heap s a) l = Inr (col q)" "counts (col q) = Inr (chart q)"
    using Cons.prems [of l q] by (simp_all add: lq)
  have h: "heap ?t a = heap s a"
    by (simp add: render_def)
  have rest: "getitem_scalar ms l' = Inr (series_mean (col q'))
            \<and> getitem_scalar (heap ?t a) l' = Inr (col q')
            \<and> counts (col q') = Inr (chart q')" if "(l', q') \<in> set lqs" for l' q'
    using Cons.prems [of l' q'] that by (simp only: h) simp
  have "render_questions a ms lqs ?t =
          (None, ?t\<lparr>page := page ?t
             @ concat (map (\<lambda>(l, q). [Metric l q (series_mean (col q)), BarChart (chart q)])
                        lqs)\<rparr>)"
    by (rule Cons.IH) (rule rest)
  then show ?case
    using here by (simp add: lq render_def)
qed

lemma render_questions_frame:
  "heap (snd (render_questions a ms lqs s)) = heap s"
  "fresh (snd (render_questions a ms lqs s)) = fresh s"
  using render_questions_rel [of s a s a ms lqs] by auto

lemma render_questions_page:
  "\<exists>evs. page (snd (render_questions a ms lqs s)) = page s @ evs"
  using render_questions_rel [of s a s a ms lqs] by auto

text \<open>One category: the two new frames take fresh addresses.\<close>

lemma render_category_frame:
  "fresh s \<le> fresh (snd (render_category parse d cat s))"
  "x < fresh s \<Longrightarrow> heap (snd (render_category parse d cat s)) x = heap s x"
  by (auto simp: render_category_def Let_def alloc_def render_def render_questions_frame
      split: sum.splits)

lemma render_category_rel:
  assumes "heap s1 d1 = heap s2 d2"
  shows "\<exists>e evs. fst (render_category parse d1 cat s1) = e
               \<and> fst (render_category parse d2 cat s2) = e
               \<and> page (snd (render_category parse d1 cat s1)) = page s1 @ evs
               \<and> page (snd (render_category parse d2 cat s2)) = page s2 @ evs"
proof (cases "getitem_list (heap s1 d1) (map snd (snd cat))")
  case (Inl e)
  with assms show ?thesis
    by (simp add: render_category_def Let_def)
next
  case p: (Inr projected)
  let ?coerced = "apply_to_numeric parse projected"
  show ?thesis
  proof (cases "set_columns (map fst (snd cat)) ?coerced")
    case (Inl e)
    with p assms show ?thesis
      by (simp add: render_category_def Let_def alloc_def)
  next
    case r: (Inr renamed)
    show ?thesis
    proof (cases "py_int (counts_mean (frame_count renamed))")
      case (Inl e)
      with p r assms show ?thesis
        by (simp add: render_category_def Let_def alloc_def)
    next
      case n: (Inr n)
      let ?H = "Header (fst cat) n"
      let ?u = "\<lambda>s. render ?H
                 (s\<lparr>fresh := Suc (Suc (fresh s)),
                    heap := (heap s)(fresh s := projected, Suc (fresh s) := renamed)\<rparr>)"
      have run: "render_category parse d cat s =
                   render_questions (Suc (fresh s)) (frame_mean renamed) (snd cat) (?u s)"
        if "heap s d = heap s1 d1" for d s
        using that p r n by (simp add: render_category_def Let_def alloc_def)
      have "heap (?u s1) (Suc (fresh s1)) = heap (?u s2) (Suc (fresh s2))"
        by (simp add: render_def)
      from render_questions_rel [OF this, of "frame_mean renamed" "snd cat"]
      obtain e evs where
        "render_questions (Suc (fresh s1)) (frame_mean renamed) (snd cat) (?u s1)
           = (e, (?u s1)\<lparr>page := page (?u s1) @ evs\<rparr>)"
        "render_questions (Suc (fresh s2)) (frame_mean renamed) (snd cat) (?u s2)
           = (e, (?u s2)\<lparr>page := page (?u s2) @ evs\<rparr>)"
        by blast
      then show ?thesis
        using run [of s1 d1] run [of s2 d2] assms
        by (intro exI [of _ e] exI [of _ "?H # evs"]) (simp add: render_def)
    qed
  qed
qed

lemma render_categories_frame:
  "fresh s \<le> fresh (snd (render_categories parse d cats s))
   \<and> (\<forall>x<fresh s. heap (snd (render_categories parse d cats s)) x = heap s x)"
proof (induction cats arbitrary: s)
  case Nil
  show ?case by simp
next
  case (Cons cat cats)
  obtain e s' where rc: "render_category parse d cat s = (e, s')"
    by (cases "render_category parse d cat s")
  have f: "fresh s \<le> fresh s'" and h: "\<forall>x<fresh s. heap s' x = heap s x"
    using render_category_frame [where s = s and parse = parse and d = d and cat = cat] rc
    by simp_all
  show ?case
  proof (cases e)
    case (Some err)
    with rc f h show ?thesis by simp
  next
    case None
    with rc f h Cons.IH [of s'] show ?thesis by auto
  qed
qed

lemma render_categories_rel:
  assumes "heap s1 d1 = heap s2 d2" and "d1 < fresh s1" and "d2 < fresh s2"
  shows "\<exists>e evs. fst (render_categories parse d1 cats s1) = e
               \<and> fst (render_categories parse d2 cats s2) = e
               \<and> page (snd (render_categories parse d1 cats s1)) = page s1 @ evs
               \<and> page (snd (render_categories parse d2 cats s2)) = page s2 @ evs"
  using assms
proof (induction cats arbitrary: s1 s2)
  case Nil
  show ?case by simp
next
  case (Cons cat cats)
  obtain e1 t1 where r1: "render_category parse d1 cat s1 = (e1, t1)"
    by (cases "render_category parse d1 cat s1")
  obtain e2 t2 where r2: "render_category parse d2 cat s2 = (e2, t2)"
    by (cases "render_category parse d2 cat s2")
  from render_category_rel [OF Cons.prems(1), of parse cat] r1 r2
  obtain evs where e: "e2 = e1" and p1: "page t1 = page s1 @ evs"
    and p2: "page t2 = page s2 @ evs"
    by auto
  show ?case
  proof (cases e1)
    case (Some err)
    with r1 r2 e p1 p2 show ?thesis by simp
  next
    case None
    have "heap t1 d1 = heap s1 d1" "d1 < fresh t1"
      using render_category_frame [where s = s1 and parse = parse and d = d1 and cat = cat]
        r1 Cons.prems(2) by auto
    moreover have "heap t2 d2 = heap s2 d2" "d2 < fresh t2"
      using render_category_frame [where s = s2 and parse = parse and d = d2 and cat = cat]
        r2 Cons.prems(3) by auto
    ultimately have "heap t1 d1 = heap t2 d2" "d1 < fresh t1" "d2 < fresh t2"
      using Cons.prems(1) by simp_all
    from Cons.IH [OF this] obtain e' evs' where
      "fst (render_categories parse d1 cats t1) = e'"
      "fst (render_categories parse d2 cats t2) = e'"
      "page (snd (render_categories parse d1 cats t1)) = page t1 @ evs'"
      "page (snd (render_categories parse d2 cats t2)) = page t2 @ evs'"
      by blast
    with None r1 r2 e p1 p2 show ?thesis
      by (intro exI [of _ e'] exI [of _ "evs @ evs'"]) simp
  qed
qed

text \<open>
  One category of a well-formed table: every question is a column, the column names of the
  table and the labels of the category are distinct, and every column has a number.
\<close>

lemma render_category_well_formed:
  assumes cols: "distinct (map fst (heap s d))"
    and present: "\<And>l q. (l, q) \<in> set lqs \<Longrightarrow> map_of (heap s d) q = Some (raw q)"
    and labels: "distinct (map fst lqs)"
    and nonempty: "lqs \<noteq> []"
    and numbers: "\<And>l q. (l, q) \<in> set lqs \<Longrightarrow>
                    counts (map (to_numeric parse) (raw q)) = Inr (chart q)"
  shows "fst (render_category parse d (name, lqs) s) = None"
    and "page (snd (render_category parse d (name, lqs) s)) =
           page s
             @ Header name
                 (int (sum_list (map (\<lambda>(l, q). series_count (map (to_numeric parse) (raw q))) lqs)
                       div length lqs))
             # concat (map (\<lambda>(l, q).
                         [Metric l q (series_mean (map (to_numeric parse) (raw q))),
                          BarChart (chart q)]) lqs)"
proof -
  let ?col = "\<lambda>q. map (to_numeric parse) (raw q)"
  let ?projected = "map (\<lambda>q. (q, raw q)) (map snd lqs)"
  let ?category_df = "map (\<lambda>(l, q). (l, ?col q)) lqs"
  have g: "getitem_list (heap s d) (map snd lqs) = Inr ?projected"
    by (rule getitem_list_present [OF cols]) (use present in auto)
  have zip: "zip (map fst lqs) (map (\<lambda>q. ?col q) (map snd lqs)) = ?category_df"
    by (induction lqs) auto
  have sc: "set_columns (map fst lqs) (apply_to_numeric parse ?projected) = Inr ?category_df"
    using zip by (simp add: set_columns_def apply_to_numeric_def comp_def)
  have fc: "frame_count ?category_df = map (\<lambda>(l, q). (l, series_count (?col q))) lqs"
    by (simp add: frame_count_def comp_def case_prod_unfold)
  have fm: "frame_mean ?category_df = map (\<lambda>(l, q). (l, series_mean (?col q))) lqs"
    by (simp add: frame_mean_def comp_def case_prod_unfold)
  have ne: "frame_count ?category_df \<noteq> []"
    using nonempty by (simp add: frame_count_def)
  let ?n = "int (sum_list (map (\<lambda>(l, q). series_count (?col q)) lqs) div length lqs)"
  have n: "py_int (counts_mean (frame_count ?category_df)) = Inr ?n"
    using py_int_counts_mean [OF ne] unfolding fc by (simp add: comp_def case_prod_unfold)
  let ?u = "render (Header name ?n)
              (s\<lparr>fresh := Suc (Suc (fresh s)),
                 heap := (heap s)(fresh s := ?projected, Suc (fresh s) := ?category_df)\<rparr>)"
  have run: "render_category parse d (name, lqs) s =
          render_questions (Suc (fresh s)) (frame_mean ?category_df) lqs ?u"
    using g sc n by (simp add: render_category_def Let_def alloc_def)
  have k: "map fst ?category_df = map fst lqs"
    by (simp add: comp_def case_prod_unfold)
  have km: "map fst (frame_mean ?category_df) = map fst lqs"
    unfolding fm by (simp add: comp_def case_prod_unfold)
  have dl: "distinct (map fst ?category_df)" "distinct (map fst (frame_mean ?category_df))"
    using labels by (simp_all only: k km)
  have each: "getitem_scalar (frame_mean ?category_df) l = Inr (series_mean (?col q))
            \<and> getitem_scalar (heap ?u (Suc (fresh s))) l = Inr (?col q)
            \<and> counts (?col q) = Inr (chart q)" if "(l, q) \<in> set lqs" for l q
  proof -
    have "(l, series_mean (?col q)) \<in> set (frame_mean ?category_df)"
      unfolding fm using that by force
    then have 1: "getitem_scalar (frame_mean ?category_df) l = Inr (series_mean (?col q))"
      by (rule getitem_scalar_distinct [OF dl(2)])
    have "(l, ?col q) \<in> set ?category_df"
      using that by force
    then have "getitem_scalar ?category_df l = Inr (?col q)"
      by (rule getitem_scalar_distinct [OF dl(1)])
    then have 2: "getitem_scalar (heap ?u (Suc (fresh s))) l = Inr (?col q)"
      by (simp add: render_def)
    from 1 2 numbers [OF that] show ?thesis by simp
  qed
  have rq: "render_questions (Suc (fresh s)) (frame_mean ?category_df) lqs ?u =
          (None, ?u\<lparr>page := page ?u
             @ concat (map (\<lambda>(l, q). [Metric l q (series_mean (?col q)), BarChart (chart q)])
                        lqs)\<rparr>)"
    by (rule render_questions_all [where col = ?col and chart = chart]) (rule each)
  show "fst (render_category parse d (name, lqs) s) = None"
    by (simp only: run rq fst_conv)
  show "page (snd (render_category parse d (name, lqs) s)) =
           page s
             @ Header name ?n
             # concat (map (\<lambda>(l, q). [Metric l q (series_mean (?col q)), BarChart (chart q)])
                        lqs)"
    by (simp only: run rq snd_conv) (simp add: render_def)
qed

lemma render_categories_well_formed:
  assumes "d < fresh s" and "distinct (map fst (heap s d))"
    and present: "\<And>name lqs l q. (name, lqs) \<in> set cats \<Longrightarrow> (l, q) \<in> set lqs \<Longrightarrow>
                    map_of (heap s d) q = Some (raw q)
                  \<and> counts (map (to_numeric parse) (raw q)) = Inr (chart q)"
    and labels: "\<And>name lqs. (name, lqs) \<in> set cats \<Longrightarrow> distinct (map fst lqs) \<and> lqs \<noteq> []"
  shows "fst (render_categories parse d cats s) = None
       \<and> page (snd (render_categories parse d cats s)) =
           page s @ concat (map (\<lambda>(name, lqs).
             Header name
               (int (sum_list (map (\<lambda>(l, q). series_count (map (to_numeric parse) (raw q))) lqs)
                     div length lqs))
             # concat (map (\<lambda>(l, q).
                         [Metric l q (series_mean (map (to_numeric parse) (raw q))),
                          BarChart (chart q)]) lqs)) cats)"
  using assms
proof (induction cats arbitrary: s)
  case Nil
  show ?case by simp
next
  case (Cons cat cats)
  obtain name lqs where cat: "cat = (name, lqs)"
    by (cases cat)
  obtain e s' where rc: "render_category parse d (name, lqs) s = (e, s')"
    by (cases "render_category parse d (name, lqs) s")
  have p: "map_of (heap s d) q = Some (raw q)" if "(l, q) \<in> set lqs" for l q
    using Cons.prems(3) [of name lqs l q] that by (simp add: cat)
  have c: "counts (map (to_numeric parse) (raw q)) = Inr (chart q)" if "(l, q) \<in> set lqs" for l q
    using Cons.prems(3) [of name lqs l q] that by (simp add: cat)
  have l: "distinct (map fst lqs)" "lqs \<noteq> []"
    using Cons.prems(4) [of name lqs] by (simp_all add: cat)
  note wf = render_category_well_formed
    [where s = s and d = d and lqs = lqs and raw = raw and parse = parse and chart = chart
       and name = name, OF Cons.prems(2) p l c]
  from wf(1) rc have e: "e = None"
    by simp
  have s': "heap s' d = heap s d" "d < fresh s'"
    using render_category_frame [where s = s and parse = parse and d = d and cat = "(name, lqs)"]
      rc Cons.prems(1) by auto
  have "fst (render_categories parse d cats s') = None
      \<and> page (snd (render_categories parse d cats s')) =
           page s' @ concat (map (\<lambda>(name, lqs).
             Header name
               (int (sum_list (map (\<lambda>(l, q). series_count (map (to_numeric parse) (raw q))) lqs)
                     div length lqs))
             # concat (map (\<lambda>(l, q).
                         [Metric l q (series_mean (map (to_numeric parse) (raw q))),
                          BarChart (chart q)]) lqs)) cats)"
  proof (rule Cons.IH [OF s'(2)])
    show "distinct (map fst (heap s' d))"
      using Cons.prems(2) by (simp only: s'(1))
    show "map_of (heap s' d) q = Some (raw q)
        \<and> counts (map (to_numeric parse) (raw q)) = Inr (chart q)"
      if "(n', lqs') \<in> set cats" "(l, q) \<in> set lqs'" for n' lqs' l q
      using Cons.prems(3) [of n' lqs' l q] that by (simp only: s'(1)) simp
    show "distinct (map fst lqs') \<and> lqs' \<noteq> []" if "(n', lqs') \<in> set cats" for n' lqs'
      using Cons.prems(4) [of n' lqs'] that by simp
  qed
  then show ?case
    using wf(2) rc e by (simp add: cat)
qed


text \<open>
  The run on a table that has every column of the schema, each with at least one number,
  when the column names are distinct (the CSV reader makes them so) and every category has
  at least one question and no label twice: the run ends without an exception, and the page
  holds, category by category, the header and then the metric card and the chart of every
  question.  The statistics of the single columns above are thus what the page shows.
\<close>

lemma run_app_well_formed:
  assumes cols: "distinct (map fst df)"
    and present: "\<And>name lqs l q. (name, lqs) \<in> set cats \<Longrightarrow> (l, q) \<in> set lqs \<Longrightarrow>
                    map_of df q = Some (raw q)
                  \<and> counts (map (to_numeric parse) (raw q)) = Inr (chart q)"
    and labels: "\<And>name lqs. (name, lqs) \<in> set cats \<Longrightarrow> distinct (map fst lqs) \<and> lqs \<noteq> []"
  shows "fst (run_app_with parse cats df) = None
       \<and> page (snd (run_app_with parse cats df)) =
           concat (map (\<lambda>(name, lqs).
             Header name
               (int (sum_list (map (\<lambda>(l, q). series_count (map (to_numeric parse) (raw q))) lqs)
                     div length lqs))
             # concat (map (\<lambda>(l, q).
                         [Metric l q (series_mean (map (to_numeric parse) (raw q))),
                          BarChart (chart q)]) lqs)) cats)"
proof -
  have "q \<in> set (map fst df)" if "(name, lqs) \<in> set cats" "(l, q) \<in> set lqs" for name lqs l q
    using present [OF that] by (metis map_of_eq_None_iff option.distinct(1) set_map)
  then have "set (missing_cols cats (map fst df)) = {}"
    unfolding set_missing_cols by fastforce
  then have none: "missing_cols cats (map fst df) = []"
    by simp
  have "fst (render_categories parse 0 cats (loaded df)) = None
      \<and> page (snd (render_categories parse 0 cats (loaded df))) =
           page (loaded df) @ concat (map (\<lambda>(name, lqs).
             Header name
               (int (sum_list (map (\<lambda>(l, q). series_count (map (to_numeric parse) (raw q))) lqs)
                     div length lqs))
             # concat (map (\<lambda>(l, q).
                         [Metric l q (series_mean (map (to_numeric parse) (raw q))),
                          BarChart (chart q)]) lqs)) cats)"
  proof (rule render_categories_well_formed)
    show "0 < fresh (loaded df)"
      by (simp add: loaded_simps)
    show "distinct (map fst (heap (loaded df) 0))"
      using cols by (simp add: loaded_simps)
    show "map_of (heap (loaded df) 0) q = Some (raw q)
        \<and> counts (map (to_numeric parse) (raw q)) = Inr (chart q)"
      if "(name, lqs) \<in> set cats" "(l, q) \<in> set lqs" for name lqs l q
      using present [OF that] by (simp add: loaded_simps)
    show "distinct (map fst lqs) \<and> lqs \<noteq> []" if "(name, lqs) \<in> set cats" for name lqs
      using labels [OF that] .
  qed
  then show ?thesis
    by (simp add: run_app_with_def Let_def none loaded_simps)
qed

text \<open>The schema of the program meets the conditions on the categories.\<close>

lemma run_app_on_complete_table:
  assumes "distinct (map fst df)"
    and "\<And>q. q \<in> set (concat (map (map snd \<circ> snd) categories)) \<Longrightarrow>
           map_of df q = Some (raw q)
         \<and> counts (map (to_numeric parse) (raw q)) = Inr (chart q)"
  shows "fst (run_app parse df) = None
       \<and> page (snd (run_app parse df)) =
           concat (map (\<lambda>(name, lqs).
             Header name
               (int (sum_list (map (\<lambda>(l, q). series_count (map (to_numeric parse) (raw q))) lqs)
                     div length lqs))
             # concat (map (\<lambda>(l, q).
                         [Metric l q (series_mean (map (to_numeric parse) (raw q))),
                          BarChart (chart q)]) lqs)) categories)"
  unfolding run_app_def
proof (rule run_app_well_formed [OF assms(1)])
  show "map_of df q = Some (raw q) \<and> counts (map (to_numeric parse) (raw q)) = Inr (chart q)"
    if "(name, lqs) \<in> set categories" "(l, q) \<in> set lqs" for name lqs l q
  proof (rule assms(2))
    show "q \<in> set (concat (map (map snd \<circ> snd) categories))"
      using that by force
  qed
  show "distinct (map fst lqs) \<and> lqs \<noteq> []" if "(name, lqs) \<in> set categories" for name lqs
    using that categories_labels_distinct categories_nonempty
    by (auto simp: list_all_iff)
qed

text \<open>
  Claim C9.  The loop over the categories, run from two states that hold the same table
  (at addresses allocated before), ends in both with the same exception or with none, and
  appends the same events to the page, whatever the page showed before and whatever else
  the heap holds; and it changes no frame that existed before.  In particular a second run
  after the first renders what the first rendered.  Numbers are exact here, so equal
  results are equal numbers.
\<close>

theorem aggregation_deterministic:
  assumes "heap s1 d1 = heap s2 d2" and "d1 < fresh s1" and "d2 < fresh s2"
  shows "fst (render_categories parse d1 cats s1) = fst (render_categories parse d2 cats s2)
       \<and> (\<exists>evs. page (snd (render_categories parse d1 cats s1)) = page s1 @ evs
               \<and> page (snd (render_categories parse d2 cats s2)) = page s2 @ evs)
       \<and> (\<forall>x<fresh s1. heap (snd (render_categories parse d1 cats s1)) x = heap s1 x)"
  using render_categories_rel [OF assms, of parse cats]
    render_categories_frame [of s1 parse d1 cats]
  by auto

theorem aggregation_deterministic_witness:
  "heap (loaded scenario_A) 0 = heap (snd (run_app parse_decimal scenario_A)) 0
   \<and> 0 < fresh (loaded scenario_A)
   \<and> 0 < fresh (snd (run_app parse_decimal scenario_A))
   \<and> fst (render_categories parse_decimal 0 categories (loaded scenario_A))
       = fst (render_categories parse_decimal 0 categories
               (snd (run_app parse_decimal scenario_A)))
   \<and> (\<exists>evs. page (snd (render_categories parse_decimal 0 categories (loaded scenario_A)))
               = page (loaded scenario_A) @ evs
          \<and> page (snd (render_categories parse_decimal 0 categories
                         (snd (run_app parse_decimal scenario_A))))
               = page (snd (run_app parse_decimal scenario_A)) @ evs)
   \<and> heap (snd (render_categories parse_decimal 0 categories (loaded scenario_A))) 0
       = heap (loaded scenario_A) 0"
proof -
  have h1: "heap (loaded scenario_A) 0 = heap (snd (run_app parse_decimal scenario_A)) 0"
    by code_simp
  have h2: "0 < fresh (loaded scenario_A)"
    by (simp add: loaded_simps)
  have h3: "0 < fresh (snd (run_app parse_decimal scenario_A))"
    by code_simp
  from aggregation_deterministic [OF h1 h2 h3, of parse_decimal categories] h1 h2 h3
  show ?thesis by blast
qed

text \<open>
  Claim C10.  The table is loaded at address 0; when the run ends, with an exception or
  without, address 0 holds the table as it was loaded: the same columns in the same order
  with the same cells, not coerced and not relabelled.
\<close>

theorem input_table_unchanged:
  "heap (loaded df) 0 = df \<and> heap (snd (run_app_with parse cats df)) 0 = df"
proof -
  have "heap (snd (render_categories parse 0 cats (loaded df))) 0 = heap (loaded df) 0"
    using render_categories_frame [of "loaded df" parse 0 cats]
    by (simp add: loaded_simps)
  then show ?thesis
    by (simp add: run_app_with_def Let_def loaded_simps render_def)
qed

theorem input_table_unchanged_witness:
  "heap (loaded scenario_A) 0 = scenario_A
   \<and> heap (snd (run_app_with parse_decimal categories scenario_A)) 0 = scenario_A"
  by (rule input_table_unchanged [of scenario_A parse_decimal categories])

section \<open>The header of a category\<close>

text \<open>
  Claim C3, as the program has it.  For a category with at least one question, once
  \<open>category_df\<close> is built, the header shows the mean of the answer counts of its columns
  rounded down (\<open>int\<close> truncates, and the mean is not negative): the sum of the answer
  counts divided, as integers, by the number of columns.
\<close>

theorem response_count_is_truncated_mean:
  assumes "getitem_list (heap s d) (map snd lqs) = Inr projected"
    and "set_columns (map fst lqs) (apply_to_numeric parse projected) = Inr category_df"
    and "lqs \<noteq> []"
  shows "\<exists>evs. page (snd (render_category parse d (name, lqs) s)) =
           page s @ Header name (int (sum_list (map snd (frame_count category_df))
                                       div length (frame_count category_df))) # evs"
proof -
  have len: "length category_df = length lqs"
    using assms(2) by (auto simp: set_columns_def split: if_splits)
  with assms(3) have ne: "frame_count category_df \<noteq> []"
    by (auto simp: frame_count_def)
  let ?n = "int (sum_list (map snd (frame_count category_df))
                   div length (frame_count category_df))"
  let ?u = "render (Header name ?n)
              (s\<lparr>fresh := Suc (Suc (fresh s)),
                 heap := (heap s)(fresh s := projected, Suc (fresh s) := category_df)\<rparr>)"
  have "render_category parse d (name, lqs) s =
          render_questions (Suc (fresh s)) (frame_mean category_df) lqs ?u"
    using assms(1,2) py_int_counts_mean [OF ne]
    by (simp add: render_category_def Let_def alloc_def)
  moreover obtain evs where
    "page (snd (render_questions (Suc (fresh s)) (frame_mean category_df) lqs ?u))
       = page ?u @ evs"
    using render_questions_page by blast
  ultimately show ?thesis
    by (simp add: render_def)
qed

theorem response_count_is_truncated_mean_witness:
  "getitem_list (heap (loaded scenario_A) 0) (map snd (snd (hd categories)))
     = Inr (take 2 scenario_A)
   \<and> set_columns (map fst (snd (hd categories)))
       (apply_to_numeric parse_decimal (take 2 scenario_A))
     = Inr [(lbl_overall_satisfaction, [Num 5, Num 4, Num 5, NaN, Num 3]),
            (lbl_recommendation, [Num 5, Num 5, Num 4, Num 4, Num 4])]
   \<and> snd (hd categories) \<noteq> []
   \<and> (\<exists>evs. page (snd (render_category parse_decimal 0
                         (cat_lecture_overall, snd (hd categories)) (loaded scenario_A))) =
         page (loaded scenario_A)
           @ Header cat_lecture_overall
               (int (sum_list (map snd (frame_count
                      [(lbl_overall_satisfaction, [Num 5, Num 4, Num 5, NaN, Num 3]),
                       (lbl_recommendation, [Num 5, Num 5, Num 4, Num 4, Num 4])]))
                     div length (frame_count
                      [(lbl_overall_satisfaction, [Num 5, Num 4, Num 5, NaN, Num 3]),
                       (lbl_recommendation, [Num 5, Num 5, Num 4, Num 4, Num 4])]))) # evs)"
proof -
  have h1: "getitem_list (heap (loaded scenario_A) 0) (map snd (snd (hd categories)))
              = Inr (take 2 scenario_A)"
    by code_simp
  have h2: "set_columns (map fst (snd (hd categories)))
              (apply_to_numeric parse_decimal (take 2 scenario_A))
            = Inr [(lbl_overall_satisfaction, [Num 5, Num 4, Num 5, NaN, Num 3]),
                   (lbl_recommendation, [Num 5, Num 5, Num 4, Num 4, Num 4])]"
    by code_simp
  have h3: "snd (hd categories) \<noteq> []"
    by (simp add: categories_def)
  from response_count_is_truncated_mean [OF h1 h2 h3, of cat_lecture_overall] h1 h2 h3
  show ?thesis by blast
qed

text \<open>
  The claim as the specification states it fails on scenario A: the answer counts of the
  first category are 4 and 5, their mean 4.5 rounds to 5, and the header shows 4.
\<close>

theorem response_count_is_not_rounded:
  "map (\<lambda>c. series_count (map (to_numeric parse_decimal) (snd c))) (take 2 scenario_A)
     = [4, 5]
   \<and> round ((4 + 5) / 2 :: rat) = 5
   \<and> hd (page (snd (run_app parse_decimal scenario_A))) = Header cat_lecture_overall 4
   \<and> hd (page (snd (run_app parse_decimal scenario_A)))
       \<noteq> Header cat_lecture_overall (round ((4 + 5) / 2 :: rat))"
  by code_simp

end
